theory Spec2Isabelle
  imports Main "HOL-Library.Sublist"
begin

section \<open>JavaScript values, failures and outcomes\<close>

text \<open>
  The arguments that reach the proxy are arbitrary JavaScript values. The model keeps
  the primitives whose conversion to a string the proxy relies on: \<open>undefined\<close>,
  \<open>null\<close>, booleans and strings. Numbers and objects are not modelled.
\<close>

datatype js_value = JUndefined | JNull | JBool bool | JString string

text \<open>
  A failure is either the \<open>TypeError\<close> raised by calling a property that is not a
  function (the name of the property is kept), the \<open>InvalidKey\<close> rejection of the
  cache store, or any value thrown by the base account.
\<close>

datatype js_error = TypeError string | InvalidKey | Thrown js_value

text \<open>
  The outcome of a call: the value it returns (for an \<open>async\<close> method, the value its
  promise resolves to) or the failure it throws (the reason its promise rejects with).
\<close>

datatype outcome = Returned js_value | Threw js_error

text \<open>\<open>ToString\<close>, as applied by a template literal \<^verbatim>\<open>`${v}`\<close>.\<close>

fun ToString :: "js_value \<Rightarrow> string" where
  "ToString JUndefined = ''undefined''"
| "ToString JNull = ''null''"
| "ToString (JBool b) = (if b then ''true'' else ''false'')"
| "ToString (JString s) = s"

text \<open>
  \<open>Array.prototype.join(sep)\<close>: \<open>undefined\<close> and \<open>null\<close> elements become the empty
  string, every other element its \<open>ToString\<close>; the separator stands between
  consecutive elements only.
\<close>

fun join_element :: "js_value \<Rightarrow> string" where
  "join_element JUndefined = []"
| "join_element JNull = []"
| "join_element v = ToString v"

fun array_join :: "js_value list \<Rightarrow> string \<Rightarrow> string" where
  "array_join [] sep = []"
| "array_join [x] sep = join_element x"
| "array_join (x # y # ys) sep = join_element x @ sep @ array_join (y # ys) sep"

section \<open>The base account and the program state\<close>

text \<open>
  Modelled from the spec: the entries of the store of \<^verbatim>\<open>../utils/cache\<close>, which is
  not among the sources. An entry has a value, the time at which the value was
  produced, and a state.
\<close>

datatype entry_state = Pending | Ready | Expired

record entry =
  entry_value :: js_value
  producedAt :: int
  entry_state :: entry_state

text \<open>
  The state threaded through every call: \<open>calls\<close> is a log of the invocations of
  base-account methods (method name and argument list, oldest first), \<open>world\<close> is
  whatever the base account reads and writes (the chain, the network), and \<open>store\<close>
  is the process-wide cache, keyed by the key and the category handed to \<open>cache\<close>.
\<close>

record 'w state =
  calls :: "(string \<times> js_value list) list"
  world :: 'w
  store :: "(string \<times> js_value) \<rightharpoonup> entry"

type_synonym 'w js_method = "js_value list \<Rightarrow> 'w \<Rightarrow> outcome \<times> 'w"

type_synonym 'w action = "'w state \<Rightarrow> outcome \<times> 'w state"

record network =
  network_id :: string

text \<open>
  The identity fields that the constructor copies from the base account to the proxy.
\<close>

record identity =
  network :: network
  index :: js_value
  path :: js_value
  keyPair :: js_value
  publicKey :: js_value

text \<open>
  The base account: its identity fields and its methods, looked up by property name.
  A name that is not in \<open>methods\<close> is a property that is not callable.
\<close>

record 'w base_account = identity +
  methods :: "string \<rightharpoonup> 'w js_method"

text \<open>
  \<^verbatim>\<open>base.name(...args)\<close>: a \<open>TypeError\<close> when the base account has no such method
  (nothing is invoked then); otherwise the method runs on the world, and the
  invocation is logged.
\<close>

definition invoke :: "'w base_account \<Rightarrow> string \<Rightarrow> js_value list \<Rightarrow> 'w action" where
  "invoke b name args s =
     (case methods b name of
        None \<Rightarrow> (Threw (TypeError name), s)
      | Some f \<Rightarrow>
          (case f args (world s) of
             (r, w') \<Rightarrow> (r, s\<lparr>calls := calls s @ [(name, args)], world := w'\<rparr>)))"

section \<open>The proxy: CachedBlockchainAccount\<close>

record 'w cached_account = identity +
  base :: "'w base_account"

text \<open>The constructor.\<close>

definition CachedBlockchainAccount :: "'w base_account \<Rightarrow> 'w cached_account" where
  "CachedBlockchainAccount b =
     \<lparr>network = network b, index = index b, path = path b, keyPair = keyPair b,
      publicKey = publicKey b, base = b\<rparr>"

subsection \<open>Forwarded operations\<close>

text \<open>
  Every definition takes the argument list the proxy method was called with. A method
  declared without parameters ignores it and calls the base method without arguments;
  a method declared with \<^verbatim>\<open>...args\<close> spreads it into the base call.
\<close>

type_synonym 'w proxy_method = "'w cached_account \<Rightarrow> js_value list \<Rightarrow> 'w action"

definition retrieveSecurePrivateKey :: "'w proxy_method" where
  "retrieveSecurePrivateKey this args = invoke (base this) ''retrieveSecurePrivateKey'' []"

definition getConnection :: "'w proxy_method" where
  "getConnection this args = invoke (base this) ''getConnection'' []"

definition getCredit :: "'w proxy_method" where
  "getCredit this args = invoke (base this) ''getCredit'' []"

definition getTokens :: "'w proxy_method" where
  "getTokens this args = invoke (base this) ''getTokens'' []"

definition getReceiveAddress :: "'w proxy_method" where
  "getReceiveAddress this args = invoke (base this) ''getReceiveAddress'' args"

definition getOrCreateTokenAccount :: "'w proxy_method" where
  "getOrCreateTokenAccount this args = invoke (base this) ''getOrCreateTokenAccount'' args"

definition validateDestinationAccount :: "'w proxy_method" where
  "validateDestinationAccount this args =
     invoke (base this) ''validateDestinationAccount'' args"

definition airdrop :: "'w proxy_method" where
  "airdrop this args = invoke (base this) ''airdrop'' args"

definition getCollectionGroup :: "'w proxy_method" where
  "getCollectionGroup this args = invoke (base this) ''getCollectionGroup'' args"

definition getCollection :: "'w proxy_method" where
  "getCollection this args = invoke (base this) ''getCollection'' args"

definition getCollectionItems :: "'w proxy_method" where
  "getCollectionItems this args = invoke (base this) ''getCollectionItems'' args"

definition getListedNfts :: "'w proxy_method" where
  "getListedNfts this args = invoke (base this) ''getListedNfts'' args"

definition getNftBids :: "'w proxy_method" where
  "getNftBids this args = invoke (base this) ''getNftsBids'' args"

definition createNftBurnTx :: "'w proxy_method" where
  "createNftBurnTx this args = invoke (base this) ''createNftBurnTx'' args"

definition confirmNftBurn :: "'w proxy_method" where
  "confirmNftBurn this args = invoke (base this) ''confirmNftBurn'' args"

definition getBestSwapQuote :: "'w proxy_method" where
  "getBestSwapQuote this args = invoke (base this) ''getBestSwapQuote'' args"

definition expireSwapQuote :: "'w proxy_method" where
  "expireSwapQuote this args = invoke (base this) ''expireSwapQuote'' args"

definition estimateTransactionsFee :: "'w proxy_method" where
  "estimateTransactionsFee this args = invoke (base this) ''estimateTransactionsFee'' args"

definition estimateTransferFee :: "'w proxy_method" where
  "estimateTransferFee this args = invoke (base this) ''estimateTransferFee'' args"

definition createTransferTransaction :: "'w proxy_method" where
  "createTransferTransaction this args =
     invoke (base this) ''createTransferTransaction'' args"

definition confirmTransferTransaction :: "'w proxy_method" where
  "confirmTransferTransaction this args =
     invoke (base this) ''confirmTransferTransaction'' args"

definition createSwapTransaction :: "'w proxy_method" where
  "createSwapTransaction this args = invoke (base this) ''createSwapTransaction'' args"

definition listNft :: "'w proxy_method" where
  "listNft this args = invoke (base this) ''listNft'' args"

definition unlistNft :: "'w proxy_method" where
  "unlistNft this args = invoke (base this) ''unlistNft'' args"

definition buyNft :: "'w proxy_method" where
  "buyNft this args = invoke (base this) ''buyNft'' args"

definition bidNft :: "'w proxy_method" where
  "bidNft this args = invoke (base this) ''bidNft'' args"

definition cancelBidNft :: "'w proxy_method" where
  "cancelBidNft this args = invoke (base this) ''cancelBidNft'' args"

definition getTransaction :: "'w proxy_method" where
  "getTransaction this args = invoke (base this) ''getTransaction'' args"

definition getDomain :: "'w proxy_method" where
  "getDomain this args = invoke (base this) ''getDomain'' []"

definition getDomainFromPublicKey :: "'w proxy_method" where
  "getDomainFromPublicKey this args = invoke (base this) ''getDomainFromPublicKey'' args"

definition getPublicKeyFromDomain :: "'w proxy_method" where
  "getPublicKeyFromDomain this args = invoke (base this) ''getPublicKeyFromDomain'' args"

definition scanTransactions :: "'w proxy_method" where
  "scanTransactions this args = invoke (base this) ''scanTransactions'' args"

subsection \<open>Cached operations\<close>

text \<open>
  The module \<^verbatim>\<open>../utils/cache\<close> exports the function \<open>cache\<close> and the object
  \<open>CACHE_TYPES\<close>. Both are parameters of the cached operations: \<open>cache\<close> takes a
  key, a category and a factory, and \<open>CACHE_TYPES\<close> is an object whose properties are
  read by name (a property that is missing reads as \<open>undefined\<close>).
\<close>

type_synonym 'w cache_fn = "string \<Rightarrow> js_value \<Rightarrow> 'w action \<Rightarrow> 'w action"

type_synonym js_object = "string \<rightharpoonup> js_value"

definition get_property :: "js_object \<Rightarrow> string \<Rightarrow> js_value" where
  "get_property obj name = (case obj name of None \<Rightarrow> JUndefined | Some v \<Rightarrow> v)"

text \<open>
  \<open>baseKey\<close> calls \<open>getReceiveAddress\<close> of the base account without arguments and
  joins the network id and the result with a dash. A failure of the base method is
  the failure of \<open>baseKey\<close>.
\<close>

definition baseKey :: "'w cached_account \<Rightarrow> 'w state \<Rightarrow> (js_error + string) \<times> 'w state" where
  "baseKey this s =
     (case invoke (base this) ''getReceiveAddress'' [] s of
        (Threw e, s') \<Rightarrow> (Inl e, s')
      | (Returned v, s') \<Rightarrow> (Inr (network_id (network this) @ ''-'' @ ToString v), s'))"

text \<open>
  A cached operation evaluates the three arguments of \<open>cache\<close> (the key, the category
  read from \<open>CACHE_TYPES\<close>, and the factory, a closure over the base call) and then
  calls \<open>cache\<close> with them. \<open>cache_call\<close> holds the evaluated arguments; each
  operation \<open>f\<close> is split into \<open>f_call\<close>, which evaluates them, and \<open>perform\<close>, which
  makes the call. A failure while the key is computed is thrown before \<open>cache\<close> is
  reached.
\<close>

record 'w cache_call =
  call_key :: string
  call_type :: js_value
  call_fn :: "'w action"

type_synonym 'w call_result = "(js_error + 'w cache_call) \<times> 'w state"

definition perform :: "'w cache_fn \<Rightarrow> 'w call_result \<Rightarrow> outcome \<times> 'w state" where
  "perform cache x =
     (case x of
        (Inl e, s) \<Rightarrow> (Threw e, s)
      | (Inr c, s) \<Rightarrow> cache (call_key c) (call_type c) (call_fn c) s)"

type_synonym 'w cached_call =
  "js_object \<Rightarrow> 'w cached_account \<Rightarrow> js_value list \<Rightarrow> 'w state \<Rightarrow> 'w call_result"

type_synonym 'w cached_method = "'w cache_fn \<Rightarrow> js_object \<Rightarrow> 'w proxy_method"

definition getBalance_call :: "'w cached_call" where
  "getBalance_call CACHE_TYPES this args s =
     (case baseKey this s of
        (Inl e, s') \<Rightarrow> (Inl e, s')
      | (Inr key, s') \<Rightarrow>
          (Inr \<lparr>call_key = key, call_type = get_property CACHE_TYPES ''BALANCE'',
                call_fn = invoke (base this) ''getBalance'' args\<rparr>, s'))"

definition getBalance :: "'w cached_method" where
  "getBalance cache CACHE_TYPES this args s =
     perform cache (getBalance_call CACHE_TYPES this args s)"

definition getAllNfts_call :: "'w cached_call" where
  "getAllNfts_call CACHE_TYPES this args s =
     (case baseKey this s of
        (Inl e, s') \<Rightarrow> (Inl e, s')
      | (Inr key, s') \<Rightarrow>
          (Inr \<lparr>call_key = key, call_type = get_property CACHE_TYPES ''NFTS_ALL'',
                call_fn = invoke (base this) ''getAllNfts'' []\<rparr>, s'))"

definition getAllNfts :: "'w cached_method" where
  "getAllNfts cache CACHE_TYPES this args s =
     perform cache (getAllNfts_call CACHE_TYPES this args s)"

text \<open>The key of \<open>getNft\<close>: the base key, a dash, and the arguments joined by dashes.\<close>

definition getNft_key :: "'w cached_account \<Rightarrow> js_value list \<Rightarrow> 'w state \<Rightarrow> (js_error + string) \<times> 'w state" where
  "getNft_key this args s =
     (case baseKey this s of
        (Inl e, s') \<Rightarrow> (Inl e, s')
      | (Inr bk, s') \<Rightarrow> (Inr (bk @ ''-'' @ array_join args ''-''), s'))"

definition getNft_call :: "'w cached_call" where
  "getNft_call CACHE_TYPES this args s =
     (case getNft_key this args s of
        (Inl e, s') \<Rightarrow> (Inl e, s')
      | (Inr key, s') \<Rightarrow>
          (Inr \<lparr>call_key = key, call_type = get_property CACHE_TYPES ''SINGLE_NFT'',
                call_fn = invoke (base this) ''getNft'' args\<rparr>, s'))"

definition getNft :: "'w cached_method" where
  "getNft cache CACHE_TYPES this args s =
     perform cache (getNft_call CACHE_TYPES this args s)"

definition getAllNftsGrouped_call :: "'w cached_call" where
  "getAllNftsGrouped_call CACHE_TYPES this args s =
     (case baseKey this s of
        (Inl e, s') \<Rightarrow> (Inl e, s')
      | (Inr key, s') \<Rightarrow>
          (Inr \<lparr>call_key = key, call_type = get_property CACHE_TYPES ''NFTS'',
                call_fn = invoke (base this) ''getAllNftsGrouped'' []\<rparr>, s'))"

definition getAllNftsGrouped :: "'w cached_method" where
  "getAllNftsGrouped cache CACHE_TYPES this args s =
     perform cache (getAllNftsGrouped_call CACHE_TYPES this args s)"

definition getRecentTransactions_call :: "'w cached_call" where
  "getRecentTransactions_call CACHE_TYPES this args s =
     (case baseKey this s of
        (Inl e, s') \<Rightarrow> (Inl e, s')
      | (Inr key, s') \<Rightarrow>
          (Inr \<lparr>call_key = key, call_type = get_property CACHE_TYPES ''TRANSACTIONS'',
                call_fn = invoke (base this) ''getRecentTransactions'' args\<rparr>, s'))"

definition getRecentTransactions :: "'w cached_method" where
  "getRecentTransactions cache CACHE_TYPES this args s =
     perform cache (getRecentTransactions_call CACHE_TYPES this args s)"

definition getAvailableTokens_call :: "'w cached_call" where
  "getAvailableTokens_call CACHE_TYPES this args s =
     (Inr \<lparr>call_key = network_id (network this),
           call_type = get_property CACHE_TYPES ''AVAILABLE_TOKENS'',
           call_fn = invoke (base this) ''getAvailableTokens'' []\<rparr>, s)"

definition getAvailableTokens :: "'w cached_method" where
  "getAvailableTokens cache CACHE_TYPES this args s =
     perform cache (getAvailableTokens_call CACHE_TYPES this args s)"

definition getFeaturedTokens_call :: "'w cached_call" where
  "getFeaturedTokens_call CACHE_TYPES this args s =
     (Inr \<lparr>call_key = network_id (network this),
           call_type = get_property CACHE_TYPES ''FEATURED_TOKENS'',
           call_fn = invoke (base this) ''getFeaturedTokens'' []\<rparr>, s)"

definition getFeaturedTokens :: "'w cached_method" where
  "getFeaturedTokens cache CACHE_TYPES this args s =
     perform cache (getFeaturedTokens_call CACHE_TYPES this args s)"

section \<open>The cache store\<close>

text \<open>
  Modelled from the spec: the categories of the store, which the spec gives as a closed
  enumeration of seven names.
\<close>

definition spec_category_names :: "string list" where
  "spec_category_names =
     [''BALANCE'', ''NFTS_ALL'', ''SINGLE_NFT'', ''NFTS_GROUPED'', ''TRANSACTIONS'',
      ''AVAILABLE_TOKENS'', ''FEATURED_TOKENS'']"

text \<open>
  Modelled from the spec: the object \<open>CACHE_TYPES\<close> of \<^verbatim>\<open>../utils/cache\<close>, which is
  not among the sources. Its members are the seven that the proxy reads; they hold the
  seven categories of the spec, each operation's member the category that the spec
  gives to that operation. So the member \<open>NFTS\<close>, which \<open>getAllNftsGrouped\<close> reads,
  holds the category \<open>NFTS_GROUPED\<close>, and every other member the category of its
  own name.
\<close>

definition spec_CACHE_TYPES :: js_object where
  "spec_CACHE_TYPES =
     [''BALANCE'' \<mapsto> JString ''BALANCE'',
      ''NFTS_ALL'' \<mapsto> JString ''NFTS_ALL'',
      ''SINGLE_NFT'' \<mapsto> JString ''SINGLE_NFT'',
      ''NFTS'' \<mapsto> JString ''NFTS_GROUPED'',
      ''TRANSACTIONS'' \<mapsto> JString ''TRANSACTIONS'',
      ''AVAILABLE_TOKENS'' \<mapsto> JString ''AVAILABLE_TOKENS'',
      ''FEATURED_TOKENS'' \<mapsto> JString ''FEATURED_TOKENS'']"

text \<open>
  Modelled from the spec: the configuration of the store, which is not among the
  sources: the time-to-live of each category and the categories the store recognises.
\<close>

record cache_config =
  TTL :: "js_value \<Rightarrow> int"
  categories :: "js_value list"

text \<open>
  Modelled from the spec: the freshness test of the store, which is not among the
  sources. An entry is served when it is \<open>Ready\<close> and younger than the time-to-live
  of its category.
\<close>

definition fresh :: "cache_config \<Rightarrow> int \<Rightarrow> js_value \<Rightarrow> entry \<Rightarrow> bool" where
  "fresh cfg now category e \<longleftrightarrow>
     entry_state e = Ready \<and> now - producedAt e < TTL cfg category"

text \<open>
  Modelled from the spec: a computation of the store, which is not among the sources.
  The factory runs once: its value is stored as a \<open>Ready\<close> entry produced at \<open>now\<close>
  and returned; its failure removes the entry and is propagated.
\<close>

definition compute :: "int \<Rightarrow> 'w cache_fn" where
  "compute now key category factory s =
     (case factory s of
        (Returned v, s') \<Rightarrow>
          (Returned v,
           s'\<lparr>store := (store s')((key, category) \<mapsto>
                 \<lparr>entry_value = v, producedAt = now, entry_state = Ready\<rparr>)\<rparr>)
      | (Threw e, s') \<Rightarrow> (Threw e, s'\<lparr>store := (store s')((key, category) := None)\<rparr>))"

text \<open>
  Modelled from the spec: the function \<open>cache\<close> of \<^verbatim>\<open>../utils/cache\<close>
  (\<open>getOrCompute\<close> in the spec), which is not among the sources, for calls that run one
  after the other, each to completion, at the time \<open>now\<close>. An empty key or a category
  that is not recognised is rejected before the factory runs. A fresh entry is returned
  and the factory does not run. Otherwise the entry is treated as absent and a
  computation starts.
\<close>

definition getOrCompute :: "cache_config \<Rightarrow> int \<Rightarrow> 'w cache_fn" where
  "getOrCompute cfg now key category factory s =
     (if key = [] \<or> category \<notin> set (categories cfg) then (Threw InvalidKey, s)
      else
        (case store s (key, category) of
           None \<Rightarrow> compute now key category factory s
         | Some e \<Rightarrow>
             if fresh cfg now category e then (Returned (entry_value e), s)
             else compute now key category factory s))"

section \<open>Tables of the proxy's methods\<close>

text \<open>
  The forwarded (non-cached) methods of the proxy, by the name under which the proxy
  offers them, in the order of the class body.
\<close>

definition forwarded_methods :: "(string \<times> 'w proxy_method) list" where
  "forwarded_methods =
     [(''retrieveSecurePrivateKey'', retrieveSecurePrivateKey),
      (''getConnection'', getConnection),
      (''getCredit'', getCredit),
      (''getTokens'', getTokens),
      (''getReceiveAddress'', getReceiveAddress),
      (''getOrCreateTokenAccount'', getOrCreateTokenAccount),
      (''validateDestinationAccount'', validateDestinationAccount),
      (''airdrop'', airdrop),
      (''getCollectionGroup'', getCollectionGroup),
      (''getCollection'', getCollection),
      (''getCollectionItems'', getCollectionItems),
      (''getListedNfts'', getListedNfts),
      (''getNftBids'', getNftBids),
      (''createNftBurnTx'', createNftBurnTx),
      (''confirmNftBurn'', confirmNftBurn),
      (''getBestSwapQuote'', getBestSwapQuote),
      (''expireSwapQuote'', expireSwapQuote),
      (''estimateTransactionsFee'', estimateTransactionsFee),
      (''estimateTransferFee'', estimateTransferFee),
      (''createTransferTransaction'', createTransferTransaction),
      (''confirmTransferTransaction'', confirmTransferTransaction),
      (''createSwapTransaction'', createSwapTransaction),
      (''listNft'', listNft),
      (''unlistNft'', unlistNft),
      (''buyNft'', buyNft),
      (''bidNft'', bidNft),
      (''cancelBidNft'', cancelBidNft),
      (''getTransaction'', getTransaction),
      (''getDomain'', getDomain),
      (''getDomainFromPublicKey'', getDomainFromPublicKey),
      (''getPublicKeyFromDomain'', getPublicKeyFromDomain),
      (''scanTransactions'', scanTransactions)]"

text \<open>The forwarded methods that are declared without parameters.\<close>

definition parameterless_methods :: "string list" where
  "parameterless_methods =
     [''retrieveSecurePrivateKey'', ''getConnection'', ''getCredit'', ''getTokens'',
      ''getDomain'']"

text \<open>
  The cached operations whose key starts with \<open>baseKey\<close>, and those whose key is the
  network id, each with the name of the member of \<open>CACHE_TYPES\<close> it reads.
\<close>

definition per_account_operations :: "(string \<times> 'w cached_method) list" where
  "per_account_operations =
     [(''BALANCE'', getBalance),
      (''NFTS_ALL'', getAllNfts),
      (''SINGLE_NFT'', getNft),
      (''NFTS'', getAllNftsGrouped),
      (''TRANSACTIONS'', getRecentTransactions)]"

definition per_network_operations :: "(string \<times> 'w cached_method) list" where
  "per_network_operations =
     [(''AVAILABLE_TOKENS'', getAvailableTokens),
      (''FEATURED_TOKENS'', getFeaturedTokens)]"

text \<open>
  What a cached operation hands to \<open>cache\<close>: the key and the category, or nothing when
  the operation failed before it reached \<open>cache\<close>.
\<close>

definition passed :: "'w call_result \<Rightarrow> (string \<times> js_value) option" where
  "passed x = (case fst x of Inl e \<Rightarrow> None | Inr c \<Rightarrow> Some (call_key c, call_type c))"

text \<open>A string argument without a dash.\<close>

fun dash_free :: "js_value \<Rightarrow> bool" where
  "dash_free (JString a) = (CHR ''-'' \<notin> set a)"
| "dash_free v = False"

section \<open>Concrete accounts\<close>

text \<open>
  A base account on the network \<open>nid\<close> with the receive address \<open>addr\<close>. Its lookups
  answer with their first argument (\<open>undefined\<close> without one); its token catalogue
  names the account that fetched it. It has a method \<open>getNftsBids\<close> and no method
  \<open>getNftBids\<close>. The world is a counter of the calls that reached the network.
\<close>

definition first_argument :: "nat js_method" where
  "first_argument args w = (Returned (case args of [] \<Rightarrow> JUndefined | x # _ \<Rightarrow> x), Suc w)"

definition answer :: "js_value \<Rightarrow> nat js_method" where
  "answer v args w = (Returned v, w)"

definition account_on :: "string \<Rightarrow> string \<Rightarrow> nat base_account" where
  "account_on nid addr =
     \<lparr>network = \<lparr>network_id = nid\<rparr>, index = JUndefined, path = JUndefined,
      keyPair = JUndefined, publicKey = JString addr,
      methods =
        [''getReceiveAddress'' \<mapsto> answer (JString addr),
         ''getRecentTransactions'' \<mapsto> first_argument,
         ''getNft'' \<mapsto> first_argument,
         ''getNftsBids'' \<mapsto> first_argument,
         ''getDomain'' \<mapsto> first_argument,
         ''airdrop'' \<mapsto> first_argument,
         ''getAllNftsGrouped'' \<mapsto> answer (JString ''groups''),
         ''getAvailableTokens'' \<mapsto> answer (JString (''tokens seen by '' @ addr))]\<rparr>"

definition init :: "nat state" where
  "init = \<lparr>calls = [], world = 0, store = Map.empty\<rparr>"

text \<open>
  Modelled from the spec: a configuration that recognises the categories of the spec and
  keeps each for 30 seconds.
\<close>

definition spec_config :: cache_config where
  "spec_config = \<lparr>TTL = (\<lambda>c. 30000), categories = map JString spec_category_names\<rparr>"

section \<open>Basic facts\<close>

text \<open>
  A call of a base method that exists runs it once and logs it; a call of a missing
  one throws and changes nothing. Base methods never touch the store.
\<close>

lemma invoke_found:
  "methods b name = Some f \<Longrightarrow>
   invoke b name args s =
     (fst (f args (world s)),
      s\<lparr>calls := calls s @ [(name, args)], world := snd (f args (world s))\<rparr>)"
  by (simp add: invoke_def split: prod.splits)

lemma invoke_missing:
  "methods b name = None \<Longrightarrow> invoke b name args s = (Threw (TypeError name), s)"
  by (simp add: invoke_def)

lemma invoke_store: "store (snd (invoke b name args s)) = store s"
  by (simp add: invoke_def split: option.splits prod.splits)

lemma invoke_returned_calls:
  "invoke b name args s = (Returned v, s') \<Longrightarrow> calls s' = calls s @ [(name, args)]"
  by (auto simp: invoke_def split: option.splits prod.splits)

lemma baseKey_returned:
  "invoke (base this) ''getReceiveAddress'' [] s = (Returned v, s') \<Longrightarrow>
   baseKey this s = (Inr (network_id (network this) @ ''-'' @ ToString v), s')"
  by (simp add: baseKey_def)

lemma dash_free_string: "dash_free x \<Longrightarrow> \<exists>a. x = JString a \<and> CHR ''-'' \<notin> set a"
  by (cases x) simp_all

lemma array_join_Cons:
  "ys \<noteq> [] \<Longrightarrow> array_join (x # ys) sep = join_element x @ sep @ array_join ys sep"
  by (cases ys) simp_all

lemma split_at_first:
  assumes "c \<notin> set u" and "c \<notin> set u'"
  shows "u @ c # v = u' @ c # v' \<longleftrightarrow> u = u' \<and> v = v'"
  using assms
  by (auto simp: append_eq_append_conv2 append_eq_Cons_conv Cons_eq_append_conv)

lemma array_join_inj:
  assumes "\<forall>x \<in> set xs. dash_free x" and "\<forall>y \<in> set ys. dash_free y"
    and "xs \<noteq> []" and "ys \<noteq> []"
    and "array_join xs ''-'' = array_join ys ''-''"
  shows "xs = ys"
  using assms
proof (induction xs arbitrary: ys)
  case Nil
  then show ?case by simp
next
  case (Cons x xs)
  from Cons.prems obtain y ys' where ys: "ys = y # ys'"
    by (cases ys) auto
  from Cons.prems obtain a where x: "x = JString a" and a: "CHR ''-'' \<notin> set a"
    using dash_free_string [of x] by auto
  from Cons.prems ys obtain b where y: "y = JString b" and b: "CHR ''-'' \<notin> set b"
    using dash_free_string [of y] by auto
  show ?case
  proof (cases "xs = []")
    case True
    show ?thesis
    proof (cases "ys' = []")
      case True
      with \<open>xs = []\<close> Cons.prems ys x y show ?thesis by simp
    next
      case False
      with \<open>xs = []\<close> Cons.prems(5) ys x y
      have "a = b @ ''-'' @ array_join ys' ''-''"
        by (simp add: array_join_Cons)
      with a show ?thesis by auto
    qed
  next
    case False
    note xs = this
    show ?thesis
    proof (cases "ys' = []")
      case True
      with xs Cons.prems(5) ys x y
      have "b = a @ ''-'' @ array_join xs ''-''"
        by (simp add: array_join_Cons)
      with b show ?thesis by auto
    next
      case False
      with xs Cons.prems(5) ys x y
      have "a @ CHR ''-'' # array_join xs ''-'' = b @ CHR ''-'' # array_join ys' ''-''"
        by (simp add: array_join_Cons)
      with a b have "a = b" and "array_join xs ''-'' = array_join ys' ''-''"
        by (simp_all add: split_at_first)
      moreover from Cons.prems ys have "\<forall>x \<in> set xs. dash_free x" "\<forall>y \<in> set ys'. dash_free y"
        by simp_all
      ultimately have "xs = ys'"
        using Cons.IH [of ys'] xs False by blast
      with \<open>a = b\<close> x y ys show ?thesis by simp
    qed
  qed
qed

text \<open>The store serves a fresh entry and computes an absent one.\<close>

lemma invoke_returned_store:
  "invoke b name args s = (r, s') \<Longrightarrow> store s' = store s"
  using invoke_store [of b name args s] by simp

lemma getOrCompute_fresh:
  assumes "key \<noteq> []" and "category \<in> set (categories cfg)"
    and "store s (key, category) = Some e" and "fresh cfg now category e"
  shows "getOrCompute cfg now key category factory s = (Returned (entry_value e), s)"
  using assms by (simp add: getOrCompute_def)

lemma getOrCompute_absent:
  assumes "key \<noteq> []" and "category \<in> set (categories cfg)"
    and "store s (key, category) = None" and "factory s = (Returned v, s')"
  shows "getOrCompute cfg now key category factory s =
           (Returned v,
            s'\<lparr>store := (store s')((key, category) \<mapsto>
                  \<lparr>entry_value = v, producedAt = now, entry_state = Ready\<rparr>)\<rparr>)"
  using assms by (simp add: getOrCompute_def compute_def)

lemmas forwarded_defs =
  retrieveSecurePrivateKey_def getConnection_def getCredit_def getTokens_def
  getReceiveAddress_def getOrCreateTokenAccount_def validateDestinationAccount_def
  airdrop_def getCollectionGroup_def getCollection_def getCollectionItems_def
  getListedNfts_def getNftBids_def createNftBurnTx_def confirmNftBurn_def
  getBestSwapQuote_def expireSwapQuote_def estimateTransactionsFee_def
  estimateTransferFee_def createTransferTransaction_def confirmTransferTransaction_def
  createSwapTransaction_def listNft_def unlistNft_def buyNft_def bidNft_def
  cancelBidNft_def getTransaction_def getDomain_def getDomainFromPublicKey_def
  getPublicKeyFromDomain_def scanTransactions_def

lemma forwarded_all:
  "\<forall>(name, m) \<in> set forwarded_methods.
     m this args s =
       invoke (base this) (if name = ''getNftBids'' then ''getNftsBids'' else name)
         (if name \<in> set parameterless_methods then [] else args) s"
  unfolding forwarded_methods_def parameterless_methods_def
  by (simp add: forwarded_defs)

lemmas fixture_defs =
  CachedBlockchainAccount_def account_on_def init_def first_argument_def answer_def

section \<open>Forwarded operations\<close>

text \<open>
  Claim C2, as the code has it. Every forwarded operation of the proxy is one call of
  a method of the base account, and its outcome and its effect are those of that call.
  The method called has the name of the proxy's operation, except that \<open>getNftBids\<close>
  calls \<open>getNftsBids\<close>; it receives the proxy's argument list, except that the
  operations declared without parameters (\<open>retrieveSecurePrivateKey\<close>,
  \<open>getConnection\<close>, \<open>getCredit\<close>, \<open>getTokens\<close>, \<open>getDomain\<close>) call it without
  arguments. When the base account has the method, it is invoked exactly once.
\<close>

theorem forwarding:
  assumes "(name, m) \<in> set forwarded_methods"
    and "target = (if name = ''getNftBids'' then ''getNftsBids'' else name)"
    and "passed_on = (if name \<in> set parameterless_methods then [] else args)"
  shows "m this args s = invoke (base this) target passed_on s \<and>
         (methods (base this) target \<noteq> None \<longrightarrow>
            calls (snd (m this args s)) = calls s @ [(target, passed_on)])"
proof -
  from forwarded_all [of "this" args s] assms
  have eq: "m this args s = invoke (base this) target passed_on s"
    by blast
  then show ?thesis
    by (auto simp: invoke_found)
qed

theorem forwarding_witness:
  "airdrop (CachedBlockchainAccount (account_on ''solana'' ''addrA'')) [JString ''1''] init =
     invoke (account_on ''solana'' ''addrA'') ''airdrop'' [JString ''1''] init \<and>
   calls (snd (airdrop (CachedBlockchainAccount (account_on ''solana'' ''addrA''))
     [JString ''1''] init)) = [(''airdrop'', [JString ''1''])]"
  using forwarding [of "''airdrop''" airdrop "''airdrop''" "[JString ''1'']" "[JString ''1'']"
      "CachedBlockchainAccount (account_on ''solana'' ''addrA'')" init]
  by (simp add: forwarded_methods_def parameterless_methods_def airdrop_def invoke_def
      fixture_defs)

text \<open>
  The claim as the spec states it (the base method of the same name) fails for
  \<open>getNftBids\<close>: on an account that offers \<open>getNftsBids\<close> only, the proxy returns the
  bids, and the base account's method of the same name does not exist.
\<close>

theorem forwarding_counterexample:
  "fst (getNftBids (CachedBlockchainAccount (account_on ''solana'' ''addrA''))
          [JString ''mint-123''] init) = Returned (JString ''mint-123'') \<and>
   fst (invoke (account_on ''solana'' ''addrA'') ''getNftBids'' [JString ''mint-123''] init)
     = Threw (TypeError ''getNftBids'')"
  by (simp add: getNftBids_def invoke_def fixture_defs)

text \<open>
  Claim C9. \<open>getNftBids\<close> of the proxy calls \<open>getNftsBids\<close> of the base account with
  the argument list unchanged, exactly once, and returns what it returns or throws what
  it throws: the outcome is that of the base method on the same arguments and the same
  world, and the log grows by this one invocation.
\<close>

theorem getNftBids_adapter:
  assumes "methods (base this) ''getNftsBids'' = Some f"
  shows "getNftBids this args s =
           (fst (f args (world s)),
            s\<lparr>calls := calls s @ [(''getNftsBids'', args)],
              world := snd (f args (world s))\<rparr>)"
  using assms by (simp add: getNftBids_def invoke_found)

theorem getNftBids_adapter_witness:
  "getNftBids (CachedBlockchainAccount (account_on ''solana'' ''addrA''))
     [JString ''mint-123'', JBool True] init =
   (Returned (JString ''mint-123''),
    \<lparr>calls = [(''getNftsBids'', [JString ''mint-123'', JBool True])], world = 1,
     store = Map.empty\<rparr>)"
  using getNftBids_adapter [of "CachedBlockchainAccount (account_on ''solana'' ''addrA'')"
      first_argument "[JString ''mint-123'', JBool True]" init]
  by (simp add: fixture_defs)

section \<open>Cache keys\<close>

text \<open>
  Claim C5. The lookups scoped to a whole account (\<open>getBalance\<close>, \<open>getAllNfts\<close>,
  \<open>getAllNftsGrouped\<close>, \<open>getRecentTransactions\<close>) call \<open>cache\<close>, whatever function it
  is, with a key made of the network id and the receive address of the account, and
  with their category; the arguments of the call are no part of the key.
\<close>

theorem account_scoped_key:
  assumes "invoke (base this) ''getReceiveAddress'' [] s = (Returned (JString addr), s')"
    and "key = network_id (network this) @ ''-'' @ addr"
  shows "getBalance cache CT this args s =
           cache key (get_property CT ''BALANCE'') (invoke (base this) ''getBalance'' args) s' \<and>
         getAllNfts cache CT this args s =
           cache key (get_property CT ''NFTS_ALL'') (invoke (base this) ''getAllNfts'' []) s' \<and>
         getAllNftsGrouped cache CT this args s =
           cache key (get_property CT ''NFTS'')
             (invoke (base this) ''getAllNftsGrouped'' []) s' \<and>
         getRecentTransactions cache CT this args s =
           cache key (get_property CT ''TRANSACTIONS'')
             (invoke (base this) ''getRecentTransactions'' args) s'"
  using assms
  by (simp add: getBalance_def getBalance_call_def getAllNfts_def getAllNfts_call_def
      getAllNftsGrouped_def getAllNftsGrouped_call_def getRecentTransactions_def
      getRecentTransactions_call_def perform_def baseKey_returned)

text \<open>The witness puts an observer in the place of \<open>cache\<close>: it returns the key.\<close>

theorem account_scoped_key_witness:
  "getBalance (\<lambda>key category factory s. (Returned (JString key), s)) spec_CACHE_TYPES
     (CachedBlockchainAccount (account_on ''solana'' ''addrA'')) [JBool True] init =
   (Returned (JString ''solana-addrA''),
    \<lparr>calls = [(''getReceiveAddress'', [])], world = 0, store = Map.empty\<rparr>)"
  using account_scoped_key [of "CachedBlockchainAccount (account_on ''solana'' ''addrA'')" init
      "''addrA''" "\<lparr>calls = [(''getReceiveAddress'', [])], world = 0, store = Map.empty\<rparr>"
      "''solana-addrA''" "\<lambda>key category factory s. (Returned (JString key), s)"
      spec_CACHE_TYPES "[JBool True]"]
  by (simp add: invoke_def fixture_defs)

text \<open>
  Claim C6. The network-scoped lookups \<open>getAvailableTokens\<close> and \<open>getFeaturedTokens\<close>
  call \<open>cache\<close> with the network id alone as the key (the base account is not asked
  for its address) and with their category; two accounts with the same network id hand
  \<open>cache\<close> the same key and the same category, whatever their addresses.
\<close>

theorem network_scoped_key:
  "getAvailableTokens cache CT this args s =
     cache (network_id (network this)) (get_property CT ''AVAILABLE_TOKENS'')
       (invoke (base this) ''getAvailableTokens'' []) s \<and>
   getFeaturedTokens cache CT this args s =
     cache (network_id (network this)) (get_property CT ''FEATURED_TOKENS'')
       (invoke (base this) ''getFeaturedTokens'' []) s \<and>
   (network_id (network this) = network_id (network that) \<longrightarrow>
      passed (getAvailableTokens_call CT this args s) =
        passed (getAvailableTokens_call CT that args' t) \<and>
      passed (getFeaturedTokens_call CT this args s) =
        passed (getFeaturedTokens_call CT that args' t))"
  by (simp add: getAvailableTokens_def getAvailableTokens_call_def getFeaturedTokens_def
      getFeaturedTokens_call_def perform_def passed_def)

theorem network_scoped_key_witness:
  "passed (getAvailableTokens_call spec_CACHE_TYPES
      (CachedBlockchainAccount (account_on ''solana'' ''addrA'')) [] init) =
   passed (getAvailableTokens_call spec_CACHE_TYPES
      (CachedBlockchainAccount (account_on ''solana'' ''addrB'')) [] init)"
  using network_scoped_key [of _ spec_CACHE_TYPES
      "CachedBlockchainAccount (account_on ''solana'' ''addrA'')" "[]" init
      "CachedBlockchainAccount (account_on ''solana'' ''addrB'')" "[]" init]
  by (simp add: fixture_defs)

lemma getNft_key_Inr:
  "fst (getNft_key this args s) = Inr k \<Longrightarrow>
   \<exists>bk. fst (baseKey this s) = Inr bk \<and> k = bk @ ''-'' @ array_join args ''-''"
  by (auto simp: getNft_key_def split: prod.splits sum.splits)

text \<open>
  Claim C3, as the code has it. The key of \<open>getNft\<close> is the base key, a dash, and the
  arguments joined by dashes. On the same account (the same base key), two different
  non-empty argument lists of strings that contain no dash get different keys.
\<close>

theorem getNft_key_dash_free:
  assumes "fst (getNft_key this xs s) = Inr k1" and "fst (getNft_key this ys t) = Inr k2"
    and "fst (baseKey this s) = fst (baseKey this t)"
    and "\<forall>x \<in> set xs. dash_free x" and "\<forall>y \<in> set ys. dash_free y"
    and "xs \<noteq> []" and "ys \<noteq> []" and "xs \<noteq> ys"
  shows "k1 \<noteq> k2"
proof
  assume "k1 = k2"
  from getNft_key_Inr [OF assms(1)] obtain bk
    where bk: "fst (baseKey this s) = Inr bk" and k1: "k1 = bk @ ''-'' @ array_join xs ''-''"
    by blast
  from getNft_key_Inr [OF assms(2)] obtain bk'
    where bk': "fst (baseKey this t) = Inr bk'" and k2: "k2 = bk' @ ''-'' @ array_join ys ''-''"
    by blast
  from bk bk' assms(3) have "bk = bk'" by simp
  with \<open>k1 = k2\<close> k1 k2 have "array_join xs ''-'' = array_join ys ''-''" by simp
  with assms(4-7) have "xs = ys" by (rule array_join_inj)
  with assms(8) show False by contradiction
qed

theorem getNft_key_dash_free_witness:
  "fst (getNft_key (CachedBlockchainAccount (account_on ''solana'' ''addrA''))
          [JString ''a'', JString ''bc''] init) \<noteq>
   fst (getNft_key (CachedBlockchainAccount (account_on ''solana'' ''addrA''))
          [JString ''ab'', JString ''c''] init)"
  using getNft_key_dash_free [of "CachedBlockchainAccount (account_on ''solana'' ''addrA'')"
      "[JString ''a'', JString ''bc'']" init "''solana-addrA-a-bc''"
      "[JString ''ab'', JString ''c'']" init "''solana-addrA-ab-c''"]
  by (simp add: getNft_key_def baseKey_def invoke_def fixture_defs)

text \<open>
  The claim as the spec states it fails: \<open>getNft\<close> joins its arguments with dashes,
  so the argument lists \<open>["a", "b-c"]\<close> and \<open>["a-b", "c"]\<close> get the same key on the
  same account.
\<close>

theorem getNft_key_collision:
  "fst (getNft_key (CachedBlockchainAccount (account_on ''solana'' ''addrA''))
          [JString ''a'', JString ''b-c''] init) = Inr ''solana-addrA-a-b-c'' \<and>
   fst (getNft_key (CachedBlockchainAccount (account_on ''solana'' ''addrA''))
          [JString ''a-b'', JString ''c''] init) = Inr ''solana-addrA-a-b-c'' \<and>
   [JString ''a'', JString ''b-c''] \<noteq> [JString ''a-b'', JString ''c'']"
  by (simp add: getNft_key_def baseKey_def invoke_def fixture_defs)

lemmas cached_defs =
  getBalance_def getAllNfts_def getNft_def getAllNftsGrouped_def getRecentTransactions_def
  getAvailableTokens_def getFeaturedTokens_def
  getBalance_call_def getAllNfts_call_def getNft_call_def getAllNftsGrouped_call_def
  getRecentTransactions_call_def getAvailableTokens_call_def getFeaturedTokens_call_def
  getNft_key_def perform_def

text \<open>What \<open>getNft\<close> hands to \<open>cache\<close>.\<close>

lemma getNft_tied:
  assumes "invoke (base this) ''getReceiveAddress'' [] s = (Returned (JString addr), s')"
  shows "getNft cache CT this args s =
           cache (network_id (network this) @ ''-'' @ addr @ ''-'' @ array_join args ''-'')
             (get_property CT ''SINGLE_NFT'') (invoke (base this) ''getNft'' args) s'"
  using assms by (simp add: cached_defs baseKey_returned)

text \<open>
  Claim C8. On an account with the base key \<open>bk\<close>, \<open>getNft("mint-123")\<close> calls
  \<open>cache\<close>, whatever function it is, with the key \<open>bk-mint-123\<close>, and
  \<open>getNft("mint-456")\<close> with the key \<open>bk-mint-456\<close>, both with the category
  \<open>SINGLE_NFT\<close> and each with its own base call as the factory. The two keys extend
  the same base key and differ.
\<close>

theorem getNft_mint_keys:
  assumes "invoke (base this) ''getReceiveAddress'' [] s = (Returned (JString addr), s')"
    and "invoke (base this) ''getReceiveAddress'' [] t = (Returned (JString addr), t')"
    and "bk = network_id (network this) @ ''-'' @ addr"
  shows "getNft cache CT this [JString ''mint-123''] s =
           cache (bk @ ''-mint-123'') (get_property CT ''SINGLE_NFT'')
             (invoke (base this) ''getNft'' [JString ''mint-123'']) s' \<and>
         getNft cache CT this [JString ''mint-456''] t =
           cache (bk @ ''-mint-456'') (get_property CT ''SINGLE_NFT'')
             (invoke (base this) ''getNft'' [JString ''mint-456'']) t' \<and>
         bk @ ''-mint-123'' \<noteq> bk @ ''-mint-456''"
  using assms by (simp add: getNft_tied)

theorem getNft_mint_keys_witness:
  "getNft (\<lambda>key category factory s. (Returned (JString key), s)) spec_CACHE_TYPES
     (CachedBlockchainAccount (account_on ''solana'' ''addrA'')) [JString ''mint-123''] init =
     (Returned (JString ''solana-addrA-mint-123''),
      \<lparr>calls = [(''getReceiveAddress'', [])], world = 0, store = Map.empty\<rparr>) \<and>
   getNft (\<lambda>key category factory s. (Returned (JString key), s)) spec_CACHE_TYPES
     (CachedBlockchainAccount (account_on ''solana'' ''addrA'')) [JString ''mint-456''] init =
     (Returned (JString ''solana-addrA-mint-456''),
      \<lparr>calls = [(''getReceiveAddress'', [])], world = 0, store = Map.empty\<rparr>) \<and>
   ''solana-addrA-mint-123'' \<noteq> ''solana-addrA-mint-456''"
  using getNft_mint_keys [of "CachedBlockchainAccount (account_on ''solana'' ''addrA'')" init
      "''addrA''" "\<lparr>calls = [(''getReceiveAddress'', [])], world = 0, store = Map.empty\<rparr>"
      init "\<lparr>calls = [(''getReceiveAddress'', [])], world = 0, store = Map.empty\<rparr>"
      "''solana-addrA''" "\<lambda>key category factory s. (Returned (JString key), s)"
      spec_CACHE_TYPES]
  by (simp add: invoke_def fixture_defs)

section \<open>Categories\<close>



section \<open>Isolation of keys\<close>

lemma split_at_last:
  assumes "c \<notin> set v" and "c \<notin> set v'"
  shows "u @ c # v = u' @ c # v' \<longleftrightarrow> u = u' \<and> v = v'"
proof -
  have "u @ c # v = u' @ c # v' \<longleftrightarrow> rev (u @ c # v) = rev (u' @ c # v')"
    by (simp only: rev_is_rev_conv)
  also have "\<dots> \<longleftrightarrow> rev v @ c # rev u = rev v' @ c # rev u'"
    by simp
  also from assms have "\<dots> \<longleftrightarrow> rev v = rev v' \<and> rev u = rev u'"
    by (intro split_at_first) simp_all
  finally show ?thesis by auto
qed

text \<open>
  What follows the network id in a key: an address without a dash, then nothing or a
  dash and more. The address can be read back.
\<close>

lemma address_part_inj:
  assumes "CHR ''-'' \<notin> set a1" and "CHR ''-'' \<notin> set a2"
    and "a1 @ x = a2 @ y"
    and "x = [] \<or> (\<exists>x'. x = CHR ''-'' # x')" and "y = [] \<or> (\<exists>y'. y = CHR ''-'' # y')"
  shows "a1 = a2"
  using assms(4,5)
proof (elim disjE exE)
  assume "x = []" "y = []"
  with assms(3) show ?thesis by simp
next
  fix y' assume "x = []" "y = CHR ''-'' # y'"
  with assms(3) have "a1 = a2 @ CHR ''-'' # y'" by simp
  with assms(1) show ?thesis by auto
next
  fix x' assume "x = CHR ''-'' # x'" "y = []"
  with assms(3) have "a2 = a1 @ CHR ''-'' # x'" by simp
  with assms(2) show ?thesis by auto
next
  fix x' y' assume "x = CHR ''-'' # x'" "y = CHR ''-'' # y'"
  with assms(1-3) show ?thesis by (simp add: split_at_first)
qed

lemma key_neq_same_suffix:
  assumes "CHR ''-'' \<notin> set a1" and "CHR ''-'' \<notin> set a2"
    and "n1 \<noteq> n2 \<or> a1 \<noteq> a2"
  shows "n1 @ ''-'' @ a1 @ x \<noteq> n2 @ ''-'' @ a2 @ x"
proof
  assume "n1 @ ''-'' @ a1 @ x = n2 @ ''-'' @ a2 @ x"
  then have "(n1 @ CHR ''-'' # a1) @ x = (n2 @ CHR ''-'' # a2) @ x"
    by simp
  then have "n1 @ CHR ''-'' # a1 = n2 @ CHR ''-'' # a2"
    by (simp only: append_same_eq)
  with split_at_last [OF assms(1,2)] have "n1 = n2 \<and> a1 = a2"
    by blast
  with assms(3) show False by blast
qed

lemma key_neq_no_prefix:
  assumes a: "CHR ''-'' \<notin> set a1" "CHR ''-'' \<notin> set a2"
    and differ: "n1 \<noteq> n2 \<or> a1 \<noteq> a2"
    and np: "\<not> prefix (n1 @ ''-'') n2" "\<not> prefix (n2 @ ''-'') n1"
    and x: "x = [] \<or> (\<exists>x'. x = CHR ''-'' # x')" and y: "y = [] \<or> (\<exists>y'. y = CHR ''-'' # y')"
  shows "n1 @ ''-'' @ a1 @ x \<noteq> n2 @ ''-'' @ a2 @ y"
proof
  assume "n1 @ ''-'' @ a1 @ x = n2 @ ''-'' @ a2 @ y"
  then have eq: "n1 @ (CHR ''-'' # a1 @ x) = n2 @ (CHR ''-'' # a2 @ y)"
    by simp
  then obtain us where
    "(n1 = n2 @ us \<and> us @ (CHR ''-'' # a1 @ x) = CHR ''-'' # a2 @ y) \<or>
     (n1 @ us = n2 \<and> CHR ''-'' # a1 @ x = us @ (CHR ''-'' # a2 @ y))"
    unfolding append_eq_append_conv2 by blast
  then have "n1 = n2"
  proof
    assume h: "n1 = n2 @ us \<and> us @ (CHR ''-'' # a1 @ x) = CHR ''-'' # a2 @ y"
    show ?thesis
    proof (cases us)
      case Nil
      with h show ?thesis by simp
    next
      case (Cons u us')
      with h have "u = CHR ''-''" by simp
      with h Cons have "prefix (n2 @ ''-'') n1" by (simp add: prefix_def)
      with np show ?thesis by blast
    qed
  next
    assume h: "n1 @ us = n2 \<and> CHR ''-'' # a1 @ x = us @ (CHR ''-'' # a2 @ y)"
    show ?thesis
    proof (cases us)
      case Nil
      with h show ?thesis by simp
    next
      case (Cons u us')
      with h have "u = CHR ''-''" by simp
      with h Cons have "prefix (n1 @ ''-'') n2" by (auto simp: prefix_def)
      with np show ?thesis by blast
    qed
  qed
  with eq have "a1 @ x = a2 @ y" by simp
  with a have "a1 = a2" using x y by (rule address_part_inj)
  with \<open>n1 = n2\<close> differ show False by blast
qed

text \<open>What each cached operation hands to \<open>cache\<close>.\<close>

lemma per_account_tied:
  assumes "(m, f) \<in> set per_account_operations"
    and "invoke (base this) ''getReceiveAddress'' [] s = (Returned (JString a), s')"
  shows "\<exists>fn. \<forall>cache. f cache CT this args s =
           cache (network_id (network this) @ ''-'' @ a @
                   (if m = ''SINGLE_NFT'' then CHR ''-'' # array_join args ''-'' else []))
             (get_property CT m) fn s'"
  using assms
  by (auto simp: per_account_operations_def cached_defs baseKey_returned)

lemma per_network_tied:
  assumes "(m, f) \<in> set per_network_operations"
  shows "\<exists>fn. \<forall>cache. f cache CT this args s =
           cache (network_id (network this)) (get_property CT m) fn s"
  using assms
  by (auto simp: per_network_operations_def cached_defs)

lemma cached_category:
  assumes "(m, f) \<in> set (per_account_operations @ per_network_operations)"
    and "\<forall>cache. f cache CT this args s = cache k c fn s'"
  shows "c = get_property CT m"
proof -
  from assms(2) have "f (\<lambda>k c fn s. (Returned c, s)) CT this args s = (Returned c, s')"
    by simp
  with assms(1) show ?thesis
    by (auto simp: per_account_operations_def per_network_operations_def cached_defs
        split: prod.splits sum.splits)
qed

text \<open>
  Claim C4, as the code has it.
  \<^item> Categories: a cached operation that reaches \<open>cache\<close> hands it the member of
    \<open>CACHE_TYPES\<close> that it reads; two operations whose members hold different values
    hand it different pairs of key and category, whatever the accounts and the keys.
  \<^item> Accounts: take two accounts that differ in the network id or in the receive
    address. One per-account operation called on both (\<open>getNft\<close> with argument lists
    that join to the same string) hands \<open>cache\<close> different keys when the accounts are
    on one network or their receive addresses contain no dash. Any two per-account
    operations with any arguments hand \<open>cache\<close> different keys when the receive
    addresses contain no dash and neither network id, followed by a dash, is a prefix
    of the other, as on one network.
  \<^item> A network-scoped operation hands \<open>cache\<close> the network id as the key: accounts
    on different networks are kept apart, accounts on one network are not.
\<close>

theorem key_isolation:
  "((m, f) \<in> set per_account_operations \<and> (n, g) \<in> set per_account_operations \<and>
    invoke (base p) ''getReceiveAddress'' [] s = (Returned (JString a1), s1) \<and>
    invoke (base q) ''getReceiveAddress'' [] t = (Returned (JString a2), t1) \<and>
    (network_id (network p) \<noteq> network_id (network q) \<or> a1 \<noteq> a2) \<and>
    (m = n \<and> (m = ''SINGLE_NFT'' \<longrightarrow> array_join xs ''-'' = array_join ys ''-'') \<and>
       (network_id (network p) = network_id (network q) \<or> CHR ''-'' \<notin> set a1 \<union> set a2) \<or>
     CHR ''-'' \<notin> set a1 \<union> set a2 \<and>
     \<not> prefix (network_id (network p) @ ''-'') (network_id (network q)) \<and>
     \<not> prefix (network_id (network q) @ ''-'') (network_id (network p))) \<longrightarrow>
      (\<exists>k1 k2 fn1 fn2. k1 \<noteq> k2 \<and>
         (\<forall>cache. f cache CT p xs s = cache k1 (get_property CT m) fn1 s1) \<and>
         (\<forall>cache. g cache CT q ys t = cache k2 (get_property CT n) fn2 t1))) \<and>
   ((m, f) \<in> set (per_account_operations @ per_network_operations) \<and>
    (n, g) \<in> set (per_account_operations @ per_network_operations) \<and>
    get_property CT m \<noteq> get_property CT n \<and>
    (\<forall>cache. f cache CT p xs s = cache k c fn s1) \<and>
    (\<forall>cache. g cache CT q ys t = cache k' c' fn' t1) \<longrightarrow>
      c = get_property CT m \<and> c' = get_property CT n \<and> (k, c) \<noteq> (k', c')) \<and>
   ((m, f) \<in> set per_network_operations \<longrightarrow>
      (\<exists>fn. \<forall>cache. f cache CT p xs s =
         cache (network_id (network p)) (get_property CT m) fn s))"
proof (intro conjI impI)
  assume h: "(m, f) \<in> set per_account_operations \<and> (n, g) \<in> set per_account_operations \<and>
    invoke (base p) ''getReceiveAddress'' [] s = (Returned (JString a1), s1) \<and>
    invoke (base q) ''getReceiveAddress'' [] t = (Returned (JString a2), t1) \<and>
    (network_id (network p) \<noteq> network_id (network q) \<or> a1 \<noteq> a2) \<and>
    (m = n \<and> (m = ''SINGLE_NFT'' \<longrightarrow> array_join xs ''-'' = array_join ys ''-'') \<and>
       (network_id (network p) = network_id (network q) \<or> CHR ''-'' \<notin> set a1 \<union> set a2) \<or>
     CHR ''-'' \<notin> set a1 \<union> set a2 \<and>
     \<not> prefix (network_id (network p) @ ''-'') (network_id (network q)) \<and>
     \<not> prefix (network_id (network q) @ ''-'') (network_id (network p)))"
  define x where "x = (if m = ''SINGLE_NFT'' then CHR ''-'' # array_join xs ''-'' else [])"
  define y where "y = (if n = ''SINGLE_NFT'' then CHR ''-'' # array_join ys ''-'' else [])"
  define k1 where "k1 = network_id (network p) @ ''-'' @ a1 @ x"
  define k2 where "k2 = network_id (network q) @ ''-'' @ a2 @ y"
  have x: "x = [] \<or> (\<exists>x'. x = CHR ''-'' # x')" and y: "y = [] \<or> (\<exists>y'. y = CHR ''-'' # y')"
    by (simp_all add: x_def y_def)
  from h have differ: "network_id (network p) \<noteq> network_id (network q) \<or> a1 \<noteq> a2"
    by simp
  from h obtain fn1 where
    f: "\<forall>cache. f cache CT p xs s = cache k1 (get_property CT m) fn1 s1"
    unfolding k1_def x_def using per_account_tied [of m f p s a1 s1 CT xs] by blast
  from h obtain fn2 where
    g: "\<forall>cache. g cache CT q ys t = cache k2 (get_property CT n) fn2 t1"
    unfolding k2_def y_def using per_account_tied [of n g q t a2 t1 CT ys] by blast
  from h have "m = n \<and> (m = ''SINGLE_NFT'' \<longrightarrow> array_join xs ''-'' = array_join ys ''-'') \<and>
       (network_id (network p) = network_id (network q) \<or> CHR ''-'' \<notin> set a1 \<union> set a2) \<or>
     CHR ''-'' \<notin> set a1 \<union> set a2 \<and>
     \<not> prefix (network_id (network p) @ ''-'') (network_id (network q)) \<and>
     \<not> prefix (network_id (network q) @ ''-'') (network_id (network p))"
    by blast
  then have "k1 \<noteq> k2"
  proof
    assume same: "m = n \<and> (m = ''SINGLE_NFT'' \<longrightarrow> array_join xs ''-'' = array_join ys ''-'') \<and>
       (network_id (network p) = network_id (network q) \<or> CHR ''-'' \<notin> set a1 \<union> set a2)"
    then have "x = y" by (auto simp: x_def y_def)
    from same have
      "network_id (network p) = network_id (network q) \<or> CHR ''-'' \<notin> set a1 \<union> set a2"
      by simp
    then show ?thesis
    proof
      assume "network_id (network p) = network_id (network q)"
      with differ \<open>x = y\<close> show ?thesis
        by (simp add: k1_def k2_def)
    next
      assume "CHR ''-'' \<notin> set a1 \<union> set a2"
      then have d: "CHR ''-'' \<notin> set a1" "CHR ''-'' \<notin> set a2"
        by simp_all
      from key_neq_same_suffix [OF d differ, of y] \<open>x = y\<close> show ?thesis
        by (simp add: k1_def k2_def)
    qed
  next
    assume "CHR ''-'' \<notin> set a1 \<union> set a2 \<and>
            \<not> prefix (network_id (network p) @ ''-'') (network_id (network q)) \<and>
            \<not> prefix (network_id (network q) @ ''-'') (network_id (network p))"
    then have d: "CHR ''-'' \<notin> set a1" "CHR ''-'' \<notin> set a2"
      and np: "\<not> prefix (network_id (network p) @ ''-'') (network_id (network q))"
      "\<not> prefix (network_id (network q) @ ''-'') (network_id (network p))"
      by simp_all
    show ?thesis
      unfolding k1_def k2_def by (rule key_neq_no_prefix [OF d differ np x y])
  qed
  with f g show "\<exists>k1 k2 fn1 fn2. k1 \<noteq> k2 \<and>
         (\<forall>cache. f cache CT p xs s = cache k1 (get_property CT m) fn1 s1) \<and>
         (\<forall>cache. g cache CT q ys t = cache k2 (get_property CT n) fn2 t1)"
    by blast
next
  assume h: "(m, f) \<in> set (per_account_operations @ per_network_operations) \<and>
    (n, g) \<in> set (per_account_operations @ per_network_operations) \<and>
    get_property CT m \<noteq> get_property CT n \<and>
    (\<forall>cache. f cache CT p xs s = cache k c fn s1) \<and>
    (\<forall>cache. g cache CT q ys t = cache k' c' fn' t1)"
  from h show c: "c = get_property CT m"
    using cached_category [of m f CT p xs s k c fn s1] by blast
  from h show c': "c' = get_property CT n"
    using cached_category [of n g CT q ys t k' c' fn' t1] by blast
  from h c c' show "(k, c) \<noteq> (k', c')"
    by simp
next
  assume "(m, f) \<in> set per_network_operations"
  then show "\<exists>fn. \<forall>cache. f cache CT p xs s =
         cache (network_id (network p)) (get_property CT m) fn s"
    by (rule per_network_tied)
qed

theorem key_isolation_witness:
  "(\<exists>k1 k2 fn1 fn2. k1 \<noteq> k2 \<and>
      (\<forall>cache. getBalance cache spec_CACHE_TYPES
         (CachedBlockchainAccount (account_on ''solana-mainnet'' ''addrA'')) [] init =
         cache k1 (get_property spec_CACHE_TYPES ''BALANCE'') fn1
           \<lparr>calls = [(''getReceiveAddress'', [])], world = 0, store = Map.empty\<rparr>) \<and>
      (\<forall>cache. getNft cache spec_CACHE_TYPES
         (CachedBlockchainAccount (account_on ''solana-devnet'' ''addrB'')) [JString ''mint-123'']
         init =
         cache k2 (get_property spec_CACHE_TYPES ''SINGLE_NFT'') fn2
           \<lparr>calls = [(''getReceiveAddress'', [])], world = 0, store = Map.empty\<rparr>)) \<and>
   (JString ''BALANCE'' = get_property spec_CACHE_TYPES ''BALANCE'' \<and>
    JString ''NFTS_ALL'' = get_property spec_CACHE_TYPES ''NFTS_ALL'' \<and>
    (''solana-mainnet-addrA'', JString ''BALANCE'') \<noteq>
    (''solana-mainnet-addrA'', JString ''NFTS_ALL'')) \<and>
   (\<exists>fn. \<forall>cache. getFeaturedTokens cache spec_CACHE_TYPES
      (CachedBlockchainAccount (account_on ''solana-mainnet'' ''addrA'')) [] init =
      cache (network_id (network (CachedBlockchainAccount (account_on ''solana-mainnet'' ''addrA''))))
        (get_property spec_CACHE_TYPES ''FEATURED_TOKENS'') fn init)"
proof -
  let ?A = "CachedBlockchainAccount (account_on ''solana-mainnet'' ''addrA'')"
  let ?B = "CachedBlockchainAccount (account_on ''solana-devnet'' ''addrB'')"
  let ?s = "\<lparr>calls = [(''getReceiveAddress'', [])], world = 0, store = Map.empty\<rparr> :: nat state"
  have "(''BALANCE'', getBalance) \<in> set per_account_operations \<and>
    (''SINGLE_NFT'', getNft) \<in> set per_account_operations \<and>
    invoke (base ?A) ''getReceiveAddress'' [] init = (Returned (JString ''addrA''), ?s) \<and>
    invoke (base ?B) ''getReceiveAddress'' [] init = (Returned (JString ''addrB''), ?s) \<and>
    (network_id (network ?A) \<noteq> network_id (network ?B) \<or> ''addrA'' \<noteq> ''addrB'') \<and>
    (''BALANCE'' = ''SINGLE_NFT'' \<and>
       (''BALANCE'' = ''SINGLE_NFT'' \<longrightarrow>
          array_join [] ''-'' = array_join [JString ''mint-123''] ''-'') \<and>
       (network_id (network ?A) = network_id (network ?B) \<or>
        CHR ''-'' \<notin> set ''addrA'' \<union> set ''addrB'') \<or>
     CHR ''-'' \<notin> set ''addrA'' \<union> set ''addrB'' \<and>
     \<not> prefix (network_id (network ?A) @ ''-'') (network_id (network ?B)) \<and>
     \<not> prefix (network_id (network ?B) @ ''-'') (network_id (network ?A)))"
    by (simp add: per_account_operations_def invoke_def fixture_defs)
  with key_isolation [where m = "''BALANCE''" and f = getBalance and n = "''SINGLE_NFT''"
      and g = getNft and p = ?A and q = ?B and s = init and t = init and ?a1.0 = "''addrA''"
      and ?a2.0 = "''addrB''" and ?s1.0 = ?s and ?t1.0 = ?s and xs = "[]"
      and ys = "[JString ''mint-123'']" and CT = spec_CACHE_TYPES, THEN conjunct1]
  have one: "\<exists>k1 k2 fn1 fn2. k1 \<noteq> k2 \<and>
      (\<forall>cache. getBalance cache spec_CACHE_TYPES ?A [] init =
         cache k1 (get_property spec_CACHE_TYPES ''BALANCE'') fn1 ?s) \<and>
      (\<forall>cache. getNft cache spec_CACHE_TYPES ?B [JString ''mint-123''] init =
         cache k2 (get_property spec_CACHE_TYPES ''SINGLE_NFT'') fn2 ?s)"
    by (rule mp)
  have "(''BALANCE'', getBalance) \<in> set (per_account_operations @ per_network_operations) \<and>
    (''NFTS_ALL'', getAllNfts) \<in> set (per_account_operations @ per_network_operations) \<and>
    get_property spec_CACHE_TYPES ''BALANCE'' \<noteq> get_property spec_CACHE_TYPES ''NFTS_ALL'' \<and>
    (\<forall>cache. getBalance cache spec_CACHE_TYPES ?A [] init =
       cache ''solana-mainnet-addrA'' (JString ''BALANCE'') (invoke (base ?A) ''getBalance'' []) ?s) \<and>
    (\<forall>cache. getAllNfts cache spec_CACHE_TYPES ?A [] init =
       cache ''solana-mainnet-addrA'' (JString ''NFTS_ALL'') (invoke (base ?A) ''getAllNfts'' []) ?s)"
    by (simp add: per_account_operations_def cached_defs baseKey_def invoke_def fixture_defs
        get_property_def spec_CACHE_TYPES_def)
  with key_isolation [where m = "''BALANCE''" and f = getBalance and n = "''NFTS_ALL''"
      and g = getAllNfts and p = ?A and q = ?A and s = init and t = init
      and ?s1.0 = ?s and ?t1.0 = ?s and xs = "[]" and ys = "[]" and CT = spec_CACHE_TYPES
      and k = "''solana-mainnet-addrA''" and c = "JString ''BALANCE''"
      and fn = "invoke (base ?A) ''getBalance'' []"
      and k' = "''solana-mainnet-addrA''" and c' = "JString ''NFTS_ALL''"
      and fn' = "invoke (base ?A) ''getAllNfts'' []", THEN conjunct2, THEN conjunct1]
  have two: "JString ''BALANCE'' = get_property spec_CACHE_TYPES ''BALANCE'' \<and>
    JString ''NFTS_ALL'' = get_property spec_CACHE_TYPES ''NFTS_ALL'' \<and>
    (''solana-mainnet-addrA'', JString ''BALANCE'') \<noteq>
    (''solana-mainnet-addrA'', JString ''NFTS_ALL'')"
    by (rule mp)
  have "(''FEATURED_TOKENS'', getFeaturedTokens) \<in> set per_network_operations"
    by (simp add: per_network_operations_def)
  with key_isolation [where m = "''FEATURED_TOKENS''" and f = getFeaturedTokens and p = ?A
      and s = init and xs = "[]" and CT = spec_CACHE_TYPES, THEN conjunct2, THEN conjunct2]
  have three: "\<exists>fn. \<forall>cache. getFeaturedTokens cache spec_CACHE_TYPES ?A [] init =
      cache (network_id (network ?A)) (get_property spec_CACHE_TYPES ''FEATURED_TOKENS'') fn init"
    by (rule mp)
  note one
  moreover from two three have "(JString ''BALANCE'' = get_property spec_CACHE_TYPES ''BALANCE'' \<and>
    JString ''NFTS_ALL'' = get_property spec_CACHE_TYPES ''NFTS_ALL'' \<and>
    (''solana-mainnet-addrA'', JString ''BALANCE'') \<noteq>
    (''solana-mainnet-addrA'', JString ''NFTS_ALL'')) \<and>
   (\<exists>fn. \<forall>cache. getFeaturedTokens cache spec_CACHE_TYPES ?A [] init =
      cache (network_id (network ?A)) (get_property spec_CACHE_TYPES ''FEATURED_TOKENS'') fn init)"
    by (rule conjI)
  ultimately show ?thesis
    by (rule conjI)
qed

text \<open>
  The claim as the spec states it fails for the network-scoped operations: two accounts
  on one network with different receive addresses hand \<open>cache\<close> the same key and the
  same category.
\<close>

theorem key_isolation_counterexample:
  "fst (getReceiveAddress (CachedBlockchainAccount (account_on ''solana'' ''addrA'')) [] init) \<noteq>
   fst (getReceiveAddress (CachedBlockchainAccount (account_on ''solana'' ''addrB'')) [] init) \<and>
   passed (getAvailableTokens_call spec_CACHE_TYPES
      (CachedBlockchainAccount (account_on ''solana'' ''addrA'')) [] init) =
   passed (getAvailableTokens_call spec_CACHE_TYPES
      (CachedBlockchainAccount (account_on ''solana'' ''addrB'')) [] init)"
  by (simp add: getReceiveAddress_def getAvailableTokens_call_def passed_def invoke_def
      fixture_defs)

text \<open>
  The dashes matter: \<open>baseKey\<close> joins the network id and the address with a dash, so
  a network id or an address that contains one can make two accounts share a base key.
\<close>

lemma baseKey_alias:
  "fst (baseKey (CachedBlockchainAccount (account_on ''a-b'' ''c'')) init) = Inr ''a-b-c'' \<and>
   fst (baseKey (CachedBlockchainAccount (account_on ''a'' ''b-c'')) init) = Inr ''a-b-c''"
  by (simp add: baseKey_def invoke_def fixture_defs)

text \<open>
  The hypotheses matter. Different networks and an address with a dash: see the two
  accounts above. One network and an address with a dash: \<open>getNft("bob", "7")\<close> of the
  account \<open>alice\<close> and \<open>getNft("7")\<close> of the account \<open>alice-bob\<close> get one key. A
  network id that continues another after a dash: \<open>getNft("addr")\<close> of the account
  \<open>main\<close> on \<open>sol\<close> and \<open>getBalance\<close> of the account \<open>addr\<close> on \<open>sol-main\<close> get
  one key.
\<close>

lemma getNft_address_alias:
  "fst (getNft_key (CachedBlockchainAccount (account_on ''near-mainnet'' ''alice''))
          [JString ''bob'', JString ''7''] init) = Inr ''near-mainnet-alice-bob-7'' \<and>
   fst (getNft_key (CachedBlockchainAccount (account_on ''near-mainnet'' ''alice-bob''))
          [JString ''7''] init) = Inr ''near-mainnet-alice-bob-7''"
  by (simp add: getNft_key_def baseKey_def invoke_def fixture_defs)

lemma network_prefix_alias:
  "fst (getNft_key (CachedBlockchainAccount (account_on ''sol'' ''main''))
          [JString ''addr''] init) = Inr ''sol-main-addr'' \<and>
   fst (baseKey (CachedBlockchainAccount (account_on ''sol-main'' ''addr'')) init) =
     Inr ''sol-main-addr''"
  by (simp add: getNft_key_def baseKey_def invoke_def fixture_defs)

section \<open>Recent transactions\<close>

text \<open>
  Claim C10. \<open>getRecentTransactions\<close> hands \<open>cache\<close> the base key and the category
  \<open>TRANSACTIONS\<close>, whatever its arguments are. With the store of the spec: a first
  call with the arguments \<open>a\<close> at the time \<open>t0\<close>, when the store has no entry for the
  key, runs the base method on \<open>a\<close> and stores its value \<open>v\<close>; a second call with
  any arguments \<open>b\<close> at a time \<open>t1\<close> within the time-to-live returns \<open>v\<close>, and the
  only base method it invokes is \<open>getReceiveAddress\<close>, for the key.
\<close>

theorem recent_transactions_ignore_arguments:
  assumes addr0: "invoke (base this) ''getReceiveAddress'' [] s0 = (Returned (JString addr), s1)"
    and key: "key = network_id (network this) @ ''-'' @ addr"
    and cat: "category = get_property CT ''TRANSACTIONS''"
    and known: "category \<in> set (categories cfg)"
    and absent: "store s1 (key, category) = None"
    and first: "invoke (base this) ''getRecentTransactions'' a s1 = (Returned v, s2)"
    and s3: "s3 = s2\<lparr>store := (store s2)((key, category) \<mapsto>
                  \<lparr>entry_value = v, producedAt = t0, entry_state = Ready\<rparr>)\<rparr>"
    and addr3: "invoke (base this) ''getReceiveAddress'' [] s3 = (Returned (JString addr), s4)"
    and young: "t1 - t0 < TTL cfg category"
  shows "passed (getRecentTransactions_call CT this a s0) = Some (key, category) \<and>
         passed (getRecentTransactions_call CT this b s3) = Some (key, category) \<and>
         getRecentTransactions (getOrCompute cfg t0) CT this a s0 = (Returned v, s3) \<and>
         getRecentTransactions (getOrCompute cfg t1) CT this b s3 = (Returned v, s4) \<and>
         calls s4 = calls s3 @ [(''getReceiveAddress'', [])]"
proof -
  have nonempty: "key \<noteq> []"
    by (simp add: key)
  have call0: "getRecentTransactions_call CT this a s0 =
      (Inr \<lparr>call_key = key, call_type = category,
            call_fn = invoke (base this) ''getRecentTransactions'' a\<rparr>, s1)"
    by (simp add: getRecentTransactions_call_def baseKey_returned [OF addr0] key cat)
  have call3: "getRecentTransactions_call CT this b s3 =
      (Inr \<lparr>call_key = key, call_type = category,
            call_fn = invoke (base this) ''getRecentTransactions'' b\<rparr>, s4)"
    by (simp add: getRecentTransactions_call_def baseKey_returned [OF addr3] key cat)
  have run0: "getRecentTransactions (getOrCompute cfg t0) CT this a s0 = (Returned v, s3)"
    by (simp add: getRecentTransactions_def call0 perform_def s3
        getOrCompute_absent [where factory = "invoke (base this) ''getRecentTransactions'' a",
          OF nonempty known absent first])
  have "store s4 = store s3"
    using addr3 by (rule invoke_returned_store)
  then have entry: "store s4 (key, category) =
      Some \<lparr>entry_value = v, producedAt = t0, entry_state = Ready\<rparr>"
    by (simp add: s3)
  have "fresh cfg t1 category \<lparr>entry_value = v, producedAt = t0, entry_state = Ready\<rparr>"
    using young by (simp add: fresh_def)
  with entry have run3: "getRecentTransactions (getOrCompute cfg t1) CT this b s3 = (Returned v, s4)"
    by (simp add: getRecentTransactions_def call3 perform_def
        getOrCompute_fresh [OF nonempty known])
  have "calls s4 = calls s3 @ [(''getReceiveAddress'', [])]"
    using addr3 by (rule invoke_returned_calls)
  with call0 call3 run0 run3 show ?thesis
    by (simp add: passed_def)
qed

theorem recent_transactions_ignore_arguments_witness:
  "getRecentTransactions (getOrCompute spec_config 1000) spec_CACHE_TYPES
     (CachedBlockchainAccount (account_on ''solana'' ''addrA'')) [JString ''limit 5''] init =
     (Returned (JString ''limit 5''),
      \<lparr>calls = [(''getReceiveAddress'', []), (''getRecentTransactions'', [JString ''limit 5''])],
       world = 1,
       store = [(''solana-addrA'', JString ''TRANSACTIONS'') \<mapsto>
          \<lparr>entry_value = JString ''limit 5'', producedAt = 1000, entry_state = Ready\<rparr>]\<rparr>) \<and>
   getRecentTransactions (getOrCompute spec_config 2000) spec_CACHE_TYPES
     (CachedBlockchainAccount (account_on ''solana'' ''addrA'')) [JString ''limit 50'']
     \<lparr>calls = [(''getReceiveAddress'', []), (''getRecentTransactions'', [JString ''limit 5''])],
      world = 1,
      store = [(''solana-addrA'', JString ''TRANSACTIONS'') \<mapsto>
          \<lparr>entry_value = JString ''limit 5'', producedAt = 1000, entry_state = Ready\<rparr>]\<rparr> =
     (Returned (JString ''limit 5''),
      \<lparr>calls = [(''getReceiveAddress'', []), (''getRecentTransactions'', [JString ''limit 5'']),
                (''getReceiveAddress'', [])],
       world = 1,
       store = [(''solana-addrA'', JString ''TRANSACTIONS'') \<mapsto>
          \<lparr>entry_value = JString ''limit 5'', producedAt = 1000, entry_state = Ready\<rparr>]\<rparr>)"
  using recent_transactions_ignore_arguments
    [of "CachedBlockchainAccount (account_on ''solana'' ''addrA'')" init "''addrA''"
      "\<lparr>calls = [(''getReceiveAddress'', [])], world = 0, store = Map.empty\<rparr>"
      "''solana-addrA''" "JString ''TRANSACTIONS''" spec_CACHE_TYPES spec_config
      "[JString ''limit 5'']" "JString ''limit 5''"
      "\<lparr>calls = [(''getReceiveAddress'', []), (''getRecentTransactions'', [JString ''limit 5''])],
        world = 1, store = Map.empty\<rparr>"
      "\<lparr>calls = [(''getReceiveAddress'', []), (''getRecentTransactions'', [JString ''limit 5''])],
        world = 1,
        store = [(''solana-addrA'', JString ''TRANSACTIONS'') \<mapsto>
          \<lparr>entry_value = JString ''limit 5'', producedAt = 1000, entry_state = Ready\<rparr>]\<rparr>"
      1000
      "\<lparr>calls = [(''getReceiveAddress'', []), (''getRecentTransactions'', [JString ''limit 5'']),
                (''getReceiveAddress'', [])],
        world = 1,
        store = [(''solana-addrA'', JString ''TRANSACTIONS'') \<mapsto>
          \<lparr>entry_value = JString ''limit 5'', producedAt = 1000, entry_state = Ready\<rparr>]\<rparr>"
      2000 "[JString ''limit 50'']"]
  by (simp add: invoke_def fixture_defs get_property_def spec_CACHE_TYPES_def
      spec_category_names_def spec_config_def)

end
